theory Spec2Isabelle
  imports Main "HOL-Library.Word"
begin

section \<open>The actor of cluster/node/actor.go\<close>

text \<open>
  The embedding is sequential: every exported operation of an actor is one atomic
  transition of the system state, and the worker goroutine started by \<open>dispatch\<close> is a
  step function driven by an explicit schedule. The read/write lock \<open>a.rw\<close> only
  orders these transitions and is not represented.

  Go function values cannot be compared or stored in a HOL datatype that they themselves
  act on, so a handler or callback is an identifier and its body is supplied separately
  (record \<open>biz\<close> below); the closures that \<open>AddRouteHandler\<close> and
  \<open>AddEventHandler\<close> build are the constructors \<open>SetRoute\<close> and \<open>SetEvent\<close>.
  A context is a reference into a store, because the mailbox, the caller and a running
  handler all share the same context object.
\<close>

type_synonym route = "32 word"
type_synonym event_id = int
type_synonym uid = "64 word"
type_synonym ctx_ref = nat
type_synonym handler = nat
type_synonym callback = nat
type_synonym pool_id = nat
type_synonym pid = string

datatype actor_state = unstart | started | destroyed

subsection \<open>Channels\<close>

text \<open>
  A Go channel with a buffer: a send on a closed channel panics, a send on a full one
  parks the sender; a receive takes the oldest buffered item, and reports closure only
  once the buffer is drained; closing a closed channel panics.
\<close>

record 'a chan =
  buf :: "'a list"
  cap :: nat
  closed :: bool

datatype 'a sent = Sent "'a chan" | Full | SendOnClosed

datatype 'a received = Item 'a "'a chan" | Drained | Empty

definition chan_send :: "'a \<Rightarrow> 'a chan \<Rightarrow> 'a sent" where
  "chan_send x c =
     (if closed c then SendOnClosed
      else if length (buf c) < cap c then Sent (c\<lparr>buf := buf c @ [x]\<rparr>)
      else Full)"

definition chan_recv :: "'a chan \<Rightarrow> 'a received" where
  "chan_recv c =
     (case buf c of
        x # xs \<Rightarrow> Item x (c\<lparr>buf := xs\<rparr>)
      | [] \<Rightarrow> (if closed c then Drained else Empty))"

definition chan_close :: "'a chan \<Rightarrow> 'a chan option" where
  "chan_close c = (if closed c then None else Some (c\<lparr>closed := True\<rparr>))"

subsection \<open>State\<close>

text \<open>
  Modelled from the spec: the declaration of the context kinds is not among the source
  files; the data model has the two kinds Message and Event. The worker tests for
  \<open>Event\<close> and treats every other kind as a message.
\<close>

datatype ctx_kind = Message | Event

text \<open>
  Modelled from the spec: the Context implementation (its version counter, cancel
  signal, deferred-completion callback and recycle target) is not among the source
  files; the record and the five operations on it below follow sections 3 and 4.1 of
  the specification. Payload, attribution and sequence number play no part in the
  actor's own code and are left out.
\<close>

record ctx =
  kind :: ctx_kind
  ctx_route :: route
  ctx_event :: event_id
  version :: nat
  cancel_signal :: bool
  defer_fn :: "callback option"
  recycle_pool :: "pool_id option"

datatype command = Call callback | SetRoute route handler | SetEvent event_id handler

record actor =
  opts_id :: string
  proc_kind :: string
  state :: actor_state
  routes :: "route \<rightharpoonup> handler"
  events :: "event_id \<rightharpoonup> handler"
  mailbox :: "ctx_ref chan"
  fnChan :: "command chan"
  binds :: "uid \<rightharpoonup> unit"

record scheduler =
  sched_routes :: "route \<rightharpoonup> string"
  relations :: "uid \<rightharpoonup> (string \<rightharpoonup> pid)"

text \<open>
  The trace records, in the order they happen, the calls the actor makes on what lies
  outside its own fields: the processor, a context, the Scheduler's batched unbind, the
  fault log, and the closing of its two channels.
\<close>

datatype log_entry =
  ProcessorDestroy
  | RelationsUnbound
  | MailboxClosed
  | FnChanClosed
  | FaultLogged
  | VersionBumped ctx_ref
  | CancelRaised ctx_ref
  | DeferRan ctx_ref callback
  | Recycled ctx_ref pool_id

record sys =
  actor :: actor
  scheduler :: scheduler
  ctxs :: "ctx_ref \<Rightarrow> ctx"
  trace :: "log_entry list"

text \<open>
  How a call ends: it returns, it is parked on a channel send (with the state it had
  reached), or it panics.
\<close>

datatype 'a outcome = Returned 'a | Blocked 'a | Panicked 'a

fun outcome_state :: "'a outcome \<Rightarrow> 'a" where
  "outcome_state (Returned s) = s"
| "outcome_state (Blocked s) = s"
| "outcome_state (Panicked s) = s"

fun calls :: "('s \<Rightarrow> 's outcome) list \<Rightarrow> 's \<Rightarrow> 's outcome" where
  "calls [] s = Returned s"
| "calls (f # fs) s =
     (case f s of
        Returned s' \<Rightarrow> calls fs s'
      | Blocked s' \<Rightarrow> Blocked s'
      | Panicked s' \<Rightarrow> Panicked s')"

text \<open>
  A body of business code either returns or faults, in both cases leaving a state
  behind. Bodies are total functions here: business code that never returns is outside
  the model. A finalizer attached to a context is a callback like any other.
\<close>

datatype 'a run = Finished 'a | Faulted 'a

fun run_state :: "'a run \<Rightarrow> 'a" where
  "run_state (Finished s) = s"
| "run_state (Faulted s) = s"

record biz =
  handler_body :: "handler \<Rightarrow> ctx_ref \<Rightarrow> sys \<Rightarrow> sys run"
  callback_body :: "callback \<Rightarrow> sys \<Rightarrow> sys run"

subsection \<open>Context operations\<close>

definition upd_ctx :: "ctx_ref \<Rightarrow> (ctx \<Rightarrow> ctx) \<Rightarrow> sys \<Rightarrow> sys" where
  "upd_ctx r f s = s\<lparr>ctxs := (ctxs s)(r := f (ctxs s r))\<rparr>"

definition log :: "log_entry \<Rightarrow> sys \<Rightarrow> sys" where
  "log e s = s\<lparr>trace := trace s @ [e]\<rparr>"

text \<open>Modelled from the spec: \<open>incrVersion\<close> bumps the generation on each delivery attempt.\<close>

definition incrVersion :: "ctx_ref \<Rightarrow> sys \<Rightarrow> sys" where
  "incrVersion r s = log (VersionBumped r) (upd_ctx r (\<lambda>c. c\<lparr>version := version c + 1\<rparr>) s)"

text \<open>Modelled from the spec: \<open>loadVersion\<close> reads the generation.\<close>

definition loadVersion :: "ctx_ref \<Rightarrow> sys \<Rightarrow> nat" where
  "loadVersion r s = version (ctxs s r)"

text \<open>
  Modelled from the spec: \<open>Cancel\<close> marks the context as superseded; the data model
  gives a context a cancel signal, which this raises.
\<close>

definition Cancel :: "ctx_ref \<Rightarrow> sys \<Rightarrow> sys" where
  "Cancel r s = log (CancelRaised r) (upd_ctx r (\<lambda>c. c\<lparr>cancel_signal := True\<rparr>) s)"

text \<open>
  Modelled from the spec: \<open>compareVersionExecDefer v\<close> runs the attached finalizer only
  if \<open>v\<close> still equals the current version, else discards it. The finalizer is
  business code: its call is recorded in the trace and its body then runs on the
  state, where it may do anything a callback may do, also fault. Nothing is said to
  catch such a fault, so it is the gate's own result.
\<close>

definition compareVersionExecDefer :: "biz \<Rightarrow> ctx_ref \<Rightarrow> nat \<Rightarrow> sys \<Rightarrow> sys run" where
  "compareVersionExecDefer b r v s =
     (if version (ctxs s r) = v then
        (case defer_fn (ctxs s r) of
           Some f \<Rightarrow> callback_body b f (log (DeferRan r f) s)
         | None \<Rightarrow> Finished s)
      else Finished (upd_ctx r (\<lambda>c. c\<lparr>defer_fn := None\<rparr>) s))"

text \<open>
  Modelled from the spec: \<open>compareVersionRecycle v\<close> returns the context to its pool
  only if \<open>v\<close> still equals the current version, else leaves it. The pool is an
  external collaborator; the release is recorded in the trace.
\<close>

definition compareVersionRecycle :: "ctx_ref \<Rightarrow> nat \<Rightarrow> sys \<Rightarrow> sys" where
  "compareVersionRecycle r v s =
     (if version (ctxs s r) = v then
        (case recycle_pool (ctxs s r) of Some p \<Rightarrow> log (Recycled r p) s | None \<Rightarrow> s)
      else s)"

subsection \<open>Identity\<close>

definition ID :: "actor \<Rightarrow> string" where
  "ID a = opts_id a"

definition Kind :: "actor \<Rightarrow> string" where
  "Kind a = proc_kind a"

definition PID :: "actor \<Rightarrow> pid" where
  "PID a = Kind a @ ''/'' @ ID a"

subsection \<open>Submitting work\<close>

definition set_mailbox :: "ctx_ref chan \<Rightarrow> sys \<Rightarrow> sys" where
  "set_mailbox c s = s\<lparr>actor := (actor s)\<lparr>mailbox := c\<rparr>\<rparr>"

definition set_fnChan :: "command chan \<Rightarrow> sys \<Rightarrow> sys" where
  "set_fnChan c s = s\<lparr>actor := (actor s)\<lparr>fnChan := c\<rparr>\<rparr>"

definition set_routes :: "(route \<rightharpoonup> handler) \<Rightarrow> sys \<Rightarrow> sys" where
  "set_routes t s = s\<lparr>actor := (actor s)\<lparr>routes := t\<rparr>\<rparr>"

definition set_events :: "(event_id \<rightharpoonup> handler) \<Rightarrow> sys \<Rightarrow> sys" where
  "set_events t s = s\<lparr>actor := (actor s)\<lparr>events := t\<rparr>\<rparr>"

text \<open>The statement \<open>a.fnChan <- fn\<close>.\<close>

definition send_fnChan :: "command \<Rightarrow> sys \<Rightarrow> sys outcome" where
  "send_fnChan f s =
     (case chan_send f (fnChan (actor s)) of
        Sent c \<Rightarrow> Returned (set_fnChan c s)
      | Full \<Rightarrow> Blocked s
      | SendOnClosed \<Rightarrow> Panicked s)"

text \<open>The statement \<open>a.mailbox <- ctx\<close>.\<close>

definition send_mailbox :: "ctx_ref \<Rightarrow> sys \<Rightarrow> sys outcome" where
  "send_mailbox r s =
     (case chan_send r (mailbox (actor s)) of
        Sent c \<Rightarrow> Returned (set_mailbox c s)
      | Full \<Rightarrow> Blocked s
      | SendOnClosed \<Rightarrow> Panicked s)"

definition Invoke :: "callback \<Rightarrow> sys \<Rightarrow> sys outcome" where
  "Invoke fn s =
     (if state (actor s) \<noteq> started then Returned s
      else send_fnChan (Call fn) s)"

definition AddRouteHandler :: "route \<Rightarrow> handler \<Rightarrow> sys \<Rightarrow> sys outcome" where
  "AddRouteHandler rt h s =
     (case state (actor s) of
        unstart \<Rightarrow> Returned (set_routes ((routes (actor s))(rt \<mapsto> h)) s)
      | started \<Rightarrow> send_fnChan (SetRoute rt h) s
      | destroyed \<Rightarrow> Returned s)"

definition AddEventHandler :: "event_id \<Rightarrow> handler \<Rightarrow> sys \<Rightarrow> sys outcome" where
  "AddEventHandler ev h s =
     (case state (actor s) of
        unstart \<Rightarrow> Returned (set_events ((events (actor s))(ev \<mapsto> h)) s)
      | started \<Rightarrow> send_fnChan (SetEvent ev h) s
      | destroyed \<Rightarrow> Returned s)"

definition Next :: "ctx_ref \<Rightarrow> sys \<Rightarrow> sys outcome" where
  "Next r s =
     (if state (actor s) \<noteq> started then Returned s
      else send_mailbox r (Cancel r (incrVersion r s)))"

subsection \<open>Destroy\<close>




text \<open>The successful compare-and-swap of the state, from started to destroyed.\<close>

definition mark_destroyed :: "sys \<Rightarrow> sys" where
  "mark_destroyed s = s\<lparr>actor := (actor s)\<lparr>state := destroyed\<rparr>\<rparr>"




subsection \<open>The actor's own membership set\<close>

definition bindUser :: "uid \<Rightarrow> actor \<Rightarrow> actor" where
  "bindUser u a = a\<lparr>binds := (binds a)(u \<mapsto> ())\<rparr>"

definition unbindUser :: "uid \<Rightarrow> actor \<Rightarrow> bool \<times> actor" where
  "unbindUser u a = (binds a u \<noteq> None, a\<lparr>binds := (binds a)(u := None)\<rparr>)"

subsection \<open>The worker\<close>

text \<open>
  Modelled from the spec: \<open>xcall.Call\<close> is not among the source files; handler execution
  is wrapped so that a fault is caught and logged, and the caller carries on.
\<close>

definition xcall_Call :: "(sys \<Rightarrow> sys run) \<Rightarrow> sys \<Rightarrow> sys" where
  "xcall_Call f s = (case f s of Finished s' \<Rightarrow> s' | Faulted s' \<Rightarrow> log FaultLogged s')"

text \<open>Lines 177 to 185: the handler is chosen by the context's kind and key.\<close>

definition run_handler :: "biz \<Rightarrow> ctx_ref \<Rightarrow> sys \<Rightarrow> sys" where
  "run_handler b r s =
     (if kind (ctxs s r) = Event then
        (case events (actor s) (ctx_event (ctxs s r)) of
           Some h \<Rightarrow> xcall_Call (handler_body b h r) s
         | None \<Rightarrow> s)
      else
        (case routes (actor s) (ctx_route (ctxs s r)) of
           Some h \<Rightarrow> xcall_Call (handler_body b h r) s
         | None \<Rightarrow> s))"

text \<open>
  Lines 175 to 189: what the worker does with a context it has dequeued. The two gates
  are called outside \<open>xcall.Call\<close>, so a fault of the finalizer is not caught here
  and the recycle gate is not reached.
\<close>

definition on_mailbox :: "biz \<Rightarrow> ctx_ref \<Rightarrow> sys \<Rightarrow> sys run" where
  "on_mailbox b r s =
     (let v = loadVersion r s;
          s1 = run_handler b r s
      in case compareVersionExecDefer b r v s1 of
           Finished s2 \<Rightarrow> Finished (compareVersionRecycle r v s2)
         | Faulted s2 \<Rightarrow> Faulted s2)"

text \<open>What a dequeued control-queue entry does when called.\<close>

definition command_body :: "biz \<Rightarrow> command \<Rightarrow> sys \<Rightarrow> sys run" where
  "command_body b c s =
     (case c of
        Call fn \<Rightarrow> callback_body b fn s
      | SetRoute rt h \<Rightarrow>
          (let s1 = set_routes ((routes (actor s))(rt \<mapsto> h)) s
           in Finished (s1\<lparr>scheduler := (scheduler s1)
                \<lparr>sched_routes := (sched_routes (scheduler s1))(rt \<mapsto> Kind (actor s1))\<rparr>\<rparr>))
      | SetEvent ev h \<Rightarrow> Finished (set_events ((events (actor s))(ev \<mapsto> h)) s))"

text \<open>
  One iteration of the \<open>for { select { ... } }\<close> loop. Which ready case a select
  takes is not determined, so the case is an argument; a case that is not ready leaves
  the worker waiting. An iteration goes on to the next one, returns from the loop, or
  is brought down by a fault that nothing caught.
\<close>

datatype select_case = FromMailbox | FromFnChan

datatype 'a iteration = Continue 'a | Exit 'a | Waiting 'a | Crashed 'a

definition dispatch_step :: "biz \<Rightarrow> select_case \<Rightarrow> sys \<Rightarrow> sys iteration" where
  "dispatch_step b c s =
     (case c of
        FromMailbox \<Rightarrow>
          (case chan_recv (mailbox (actor s)) of
             Item r m \<Rightarrow>
               (case on_mailbox b r (set_mailbox m s) of
                  Finished s' \<Rightarrow> Continue s'
                | Faulted s' \<Rightarrow> Crashed s')
           | Drained \<Rightarrow> Exit s
           | Empty \<Rightarrow> Waiting s)
      | FromFnChan \<Rightarrow>
          (case chan_recv (fnChan (actor s)) of
             Item f q \<Rightarrow> Continue (xcall_Call (command_body b f) (set_fnChan q s))
           | Drained \<Rightarrow> Exit s
           | Empty \<Rightarrow> Waiting s))"

fun iteration_state :: "'a iteration \<Rightarrow> 'a" where
  "iteration_state (Continue s) = s"
| "iteration_state (Exit s) = s"
| "iteration_state (Waiting s) = s"
| "iteration_state (Crashed s) = s"

text \<open>
  The loop, along a schedule of select cases; it is left by \<open>Exit\<close> or by a fault
  that nothing caught.
\<close>

fun dispatch :: "biz \<Rightarrow> select_case list \<Rightarrow> sys \<Rightarrow> sys iteration" where
  "dispatch b [] s = Continue s"
| "dispatch b (c # cs) s =
     (case dispatch_step b c s of
        Continue s' \<Rightarrow> dispatch b cs s'
      | Waiting s' \<Rightarrow> dispatch b cs s'
      | Exit s' \<Rightarrow> Exit s'
      | Crashed s' \<Rightarrow> Crashed s')"

text \<open>
  Modelled from the spec: the Scheduler's spawn, whose source is not among the files,
  allocates the actor in unstart, starts its worker and moves it to started. Only the
  state transition is represented.
\<close>

definition mark_started :: "sys \<Rightarrow> sys" where
  "mark_started s =
     (if state (actor s) = unstart then s\<lparr>actor := (actor s)\<lparr>state := started\<rparr>\<rparr> else s)"

section \<open>The proxy of cluster/node/proxy.go\<close>

text \<open>
  The Link and the node's router are collaborators outside the two source files. A
  proxy operation is embedded as the list of calls it makes on them, in order, together
  with what it hands back; the Link's answer to a call is a parameter. The declarations
  of the argument structs are not among the files either: their fields are the ones the
  code reads and writes. \<open>DeliverArgs.Message\<close> is a pointer (it is assigned to the
  field that \<open>Response\<close> fills with \<open>&link.Message{...}\<close>), so it may be nil, and
  reading a field through it then panics. Nothing in the two files shows
  \<open>Request.Message\<close> to be a pointer; it is taken as a value.
\<close>

record 'd message =
  Seq :: "32 word"
  Route :: "32 word"
  Data :: 'd

text \<open>The session kinds; \<open>Response\<close> only ever names \<open>session.Conn\<close>.\<close>

datatype session_kind = Conn | User

record 'd link_PushArgs =
  pa_GID :: string
  pa_Kind :: session_kind
  pa_Target :: "64 word"
  pa_Message :: "'d message option"

record 'd link_DeliverArgs =
  la_NID :: string
  la_UID :: "64 word"
  la_Message :: "'d message option"

record 'd cluster_DeliverArgs =
  da_NID :: string
  da_UID :: "64 word"
  da_Message :: "'d message option"

record 'd Request =
  req_GID :: string
  req_NID :: string
  req_CID :: "64 word"
  req_UID :: "64 word"
  req_Message :: "'d message"

datatype 'd call =
  LinkPush "'d link_PushArgs"
  | LinkDeliver "'d link_DeliverArgs"
  | RouterDeliver string string "64 word" "64 word" "32 word" "32 word" 'd

fun is_link_call :: "'d call \<Rightarrow> bool" where
  "is_link_call (LinkPush _) = True"
| "is_link_call (LinkDeliver _) = True"
| "is_link_call (RouterDeliver _ _ _ _ _ _ _) = False"

datatype 'r completion = Returns 'r | NilPanic

text \<open>
  \<open>Proxy.Deliver\<close>, for the proxy of the node with id \<open>nid\<close>. The call of
  \<open>router.deliver\<close> is a statement: nothing it computes is read, and the function
  goes on to \<open>return nil\<close>.
\<close>

definition Proxy_Deliver ::
  "string \<Rightarrow> ('d call \<Rightarrow> 'e option) \<Rightarrow> 'd cluster_DeliverArgs
     \<Rightarrow> 'd call list \<times> 'e option completion" where
  "Proxy_Deliver nid link args =
     (if da_NID args \<noteq> nid then
        (let c = LinkDeliver \<lparr>la_NID = da_NID args, la_UID = da_UID args,
                              la_Message = da_Message args\<rparr>
         in ([c], Returns (link c)))
      else
        (case da_Message args of
           None \<Rightarrow> ([], NilPanic)
         | Some m \<Rightarrow>
             ([RouterDeliver [] (da_NID args) 0 (da_UID args) (Seq m) (Route m) (Data m)],
              Returns None)))"

definition Proxy_Response ::
  "('d call \<Rightarrow> 'e option) \<Rightarrow> 'd Request \<Rightarrow> 'd \<Rightarrow> 'd call list \<times> 'e option" where
  "Proxy_Response link req msg =
     (if req_GID req \<noteq> [] then
        (let c = LinkPush \<lparr>pa_GID = req_GID req, pa_Kind = Conn, pa_Target = req_CID req,
                           pa_Message = Some \<lparr>Seq = Seq (req_Message req),
                             Route = Route (req_Message req), Data = msg\<rparr>\<rparr>
         in ([c], link c))
      else if req_NID req \<noteq> [] then
        (let c = LinkDeliver \<lparr>la_NID = req_NID req, la_UID = req_UID req,
                              la_Message = Some \<lparr>Seq = Seq (req_Message req),
                                Route = Route (req_Message req), Data = msg\<rparr>\<rparr>
         in ([c], link c))
      else ([], None))"

section \<open>The specification's last-write-wins table\<close>

text \<open>
  The table that a sequence of writes leaves behind, read off the sequence itself: a key
  holds the value of the last write to it, and what it held before when no write names it.
\<close>

definition last_write_wins :: "('k \<times> 'v) list \<Rightarrow> ('k \<rightharpoonup> 'v) \<Rightarrow> ('k \<rightharpoonup> 'v)" where
  "last_write_wins ps m =
     (\<lambda>k. case List.find (\<lambda>p. fst p = k) (rev ps) of
             Some p \<Rightarrow> Some (snd p)
           | None \<Rightarrow> m k)"

section \<open>A sample system\<close>

text \<open>
  A started actor \<open>room/1\<close> with route 10 registered and user 42 bound to it, pooled
  message contexts for route 10 (the one at reference 1 has been through five
  deliveries), an event context at reference 2, the same actor before its start with
  nothing registered, and business code that does nothing, whose handlers fault,
  whose callbacks (finalizers among them) fault, or whose handlers forward their
  context to the actor again.
\<close>

definition room_chan :: "'a chan" where
  "room_chan = \<lparr>buf = [], cap = 2, closed = False\<rparr>"

definition room :: actor where
  "room = \<lparr>opts_id = ''1'', proc_kind = ''room'', state = started,
            routes = [10 \<mapsto> 1], events = Map.empty,
            mailbox = room_chan, fnChan = room_chan, binds = [42 \<mapsto> ()]\<rparr>"

definition msg10 :: ctx where
  "msg10 = \<lparr>kind = Message, ctx_route = 10, ctx_event = 0, version = 0,
             cancel_signal = False, defer_fn = Some 7, recycle_pool = Some 0\<rparr>"

definition room_sys :: sys where
  "room_sys = \<lparr>actor = room,
                scheduler = \<lparr>sched_routes = Map.empty,
                              relations = [42 \<mapsto> [''room'' \<mapsto> ''room/1'']]\<rparr>,
                ctxs = (\<lambda>r. if r = 1 then msg10\<lparr>version := 5\<rparr>
                             else if r = 2 then msg10\<lparr>kind := Event, ctx_event := 3\<rparr>
                             else msg10),
                trace = []\<rparr>"

definition fresh_sys :: sys where
  "fresh_sys = room_sys\<lparr>actor := room\<lparr>state := unstart, routes := Map.empty\<rparr>\<rparr>"

definition quiet :: biz where
  "quiet = \<lparr>handler_body = (\<lambda>h r s. Finished s), callback_body = (\<lambda>f s. Finished s)\<rparr>"

definition faulty :: biz where
  "faulty = \<lparr>handler_body = (\<lambda>h r s. Faulted s), callback_body = (\<lambda>f s. Finished s)\<rparr>"

definition failing_finalizer :: biz where
  "failing_finalizer =
     \<lparr>handler_body = (\<lambda>h r s. Finished s), callback_body = (\<lambda>f s. Faulted s)\<rparr>"

definition forwarding :: biz where
  "forwarding = \<lparr>handler_body = (\<lambda>h r s. Finished (outcome_state (Next r s))),
                  callback_body = (\<lambda>f s. Finished s)\<rparr>"

text \<open>
  Two deliveries that are both accepted before the worker dequeues anything: context 0
  twice, and context 1 followed by context 0.
\<close>

definition twice_same :: sys where
  "twice_same = outcome_state (Next 0 (outcome_state (Next 0 room_sys)))"

definition two_contexts :: sys where
  "two_contexts = outcome_state (Next 0 (outcome_state (Next 1 room_sys)))"

text \<open>
  Requests as they arrive from a gateway connection, from another node and from local
  code; a delivery addressed to a given node, with a message and with a nil one; a Link
  that accepts every call and one that fails every call.
\<close>

definition ping :: "nat message" where
  "ping = \<lparr>Seq = 1, Route = 10, Data = 0\<rparr>"

definition gate_req :: "nat Request" where
  "gate_req = \<lparr>req_GID = ''gate-1'', req_NID = ''node-2'', req_CID = 9, req_UID = 42,
                req_Message = ping\<rparr>"

definition node_req :: "nat Request" where
  "node_req = \<lparr>req_GID = [], req_NID = ''node-2'', req_CID = 0, req_UID = 42,
                req_Message = ping\<rparr>"

definition local_req :: "nat Request" where
  "local_req = \<lparr>req_GID = [], req_NID = [], req_CID = 0, req_UID = 42,
                 req_Message = ping\<rparr>"

definition deliver_to :: "string \<Rightarrow> nat cluster_DeliverArgs" where
  "deliver_to n = \<lparr>da_NID = n, da_UID = 42, da_Message = Some ping\<rparr>"

definition deliver_nil :: "string \<Rightarrow> nat cluster_DeliverArgs" where
  "deliver_nil n = \<lparr>da_NID = n, da_UID = 42, da_Message = None\<rparr>"

definition link_up :: "nat call \<Rightarrow> string option" where
  "link_up c = None"

definition link_down :: "nat call \<Rightarrow> string option" where
  "link_down c = Some ''unreachable''"

section \<open>Theorems\<close>

text \<open>Unfolding sets for the state operations, the channels and the sample system.\<close>

lemmas sys_ops = set_mailbox_def set_fnChan_def set_routes_def set_events_def upd_ctx_def log_def
  incrVersion_def loadVersion_def Cancel_def compareVersionExecDefer_def compareVersionRecycle_def
lemmas chan_ops = chan_send_def chan_recv_def chan_close_def
lemmas sample = room_sys_def room_def room_chan_def msg10_def fresh_sys_def quiet_def faulty_def
  failing_finalizer_def forwarding_def
lemmas wire = ping_def gate_req_def node_req_def local_req_def deliver_to_def deliver_nil_def
  link_up_def link_down_def

subsection \<open>The membership set\<close>

text \<open>
  C9. Unbinding a uid that has just been bound reports true and leaves the membership
  set without the uid; unbinding a uid that is not in the set reports false and changes
  nothing; so a second unbind in a row always reports false and changes nothing.
\<close>

theorem C9_bind_unbind:
  "unbindUser u (bindUser u a) = (True, a\<lparr>binds := (binds a)(u := None)\<rparr>)
   \<and> (binds a u = None \<longrightarrow> unbindUser u a = (False, a))
   \<and> unbindUser u (snd (unbindUser u a)) = (False, snd (unbindUser u a))"
  by (simp add: unbindUser_def bindUser_def fun_upd_idem)

text \<open>User 42, bound to the sample actor, and user 7, who is not.\<close>

theorem C9_witness:
  "unbindUser 42 (bindUser 42 room) = (True, room\<lparr>binds := Map.empty\<rparr>)
   \<and> binds room 7 = None
   \<and> unbindUser 7 room = (False, room)
   \<and> unbindUser 42 (snd (unbindUser 42 room)) = (False, snd (unbindUser 42 room))"
proof -
  have a: "binds room 7 = None" "(binds room)(42 := None) = Map.empty"
    by (simp_all add: room_def)
  show ?thesis
    using C9_bind_unbind [of 42 room] C9_bind_unbind [of 7 room] a
    by simp
qed

subsection \<open>Destroy\<close>









subsection \<open>Operations on an actor that is not started\<close>

text \<open>
  C3, as claimed, fails for an actor that has not been started yet: there
  \<open>AddRouteHandler\<close> and \<open>AddEventHandler\<close> are no no-ops, they store the handler in
  the table, and once the actor is started a message for that route reaches the stored
  handler (it faults here, which leaves \<open>FaultLogged\<close> in the trace).
\<close>

theorem C3_counterexample:
  "state (actor fresh_sys) = unstart
   \<and> AddRouteHandler 10 1 fresh_sys \<noteq> Returned fresh_sys
   \<and> routes (actor fresh_sys) 10 = None
   \<and> routes (actor (outcome_state (AddRouteHandler 10 1 fresh_sys))) 10 = Some 1
   \<and> AddEventHandler 3 6 fresh_sys \<noteq> Returned fresh_sys
   \<and> events (actor (outcome_state (AddEventHandler 3 6 fresh_sys))) 3 = Some 6
   \<and> mark_started (outcome_state (AddRouteHandler 10 1 fresh_sys)) = room_sys
   \<and> trace (iteration_state (dispatch_step faulty FromMailbox
        (outcome_state (Next 0 (mark_started (outcome_state (AddRouteHandler 10 1 fresh_sys)))))))
      = [VersionBumped 0, CancelRaised 0, FaultLogged, DeferRan 0 7, Recycled 0 0]"
proof -
  have r0: "routes (actor fresh_sys) 10 = None"
    by (simp add: sample)
  have r1: "routes (actor (outcome_state (AddRouteHandler 10 1 fresh_sys))) 10 = Some 1"
    by (simp add: AddRouteHandler_def set_routes_def sample)
  have e0: "events (actor fresh_sys) 3 = None"
    by (simp add: sample)
  have e1: "events (actor (outcome_state (AddEventHandler 3 6 fresh_sys))) 3 = Some 6"
    by (simp add: AddEventHandler_def set_events_def sample)
  have n1: "AddRouteHandler 10 1 fresh_sys \<noteq> Returned fresh_sys"
    using r0 r1 by auto
  have n2: "AddEventHandler 3 6 fresh_sys \<noteq> Returned fresh_sys"
    using e0 e1 by auto
  have st: "mark_started (outcome_state (AddRouteHandler 10 1 fresh_sys)) = room_sys"
    by (simp add: AddRouteHandler_def set_routes_def mark_started_def sample)
  have run: "trace (iteration_state (dispatch_step faulty FromMailbox
        (outcome_state (Next 0 room_sys))))
      = [VersionBumped 0, CancelRaised 0, FaultLogged, DeferRan 0 7, Recycled 0 0]"
    by (simp add: Next_def send_mailbox_def dispatch_step_def on_mailbox_def run_handler_def
        xcall_Call_def Let_def sys_ops chan_ops sample)
  show ?thesis
    using r0 r1 e1 n1 n2 st run by (simp add: fresh_sys_def)
qed

text \<open>
  C3, amended. On an actor that is not started, \<open>Next\<close> and \<open>Invoke\<close> return the
  state they were given; on a destroyed actor so do \<open>AddRouteHandler\<close> and
  \<open>AddEventHandler\<close>. On an actor in unstart the latter two return after storing the
  handler in the route or event table, with the mailbox and the control queue untouched.
\<close>

theorem C3_not_started:
  "(state (actor s) \<noteq> started \<longrightarrow> Next r s = Returned s \<and> Invoke f s = Returned s)
   \<and> (state (actor s) = destroyed \<longrightarrow>
        AddRouteHandler rt h s = Returned s \<and> AddEventHandler ev h s = Returned s)
   \<and> (state (actor s) = unstart \<longrightarrow>
        AddRouteHandler rt h s = Returned (set_routes ((routes (actor s))(rt \<mapsto> h)) s)
        \<and> AddEventHandler ev h s = Returned (set_events ((events (actor s))(ev \<mapsto> h)) s)
        \<and> mailbox (actor (set_routes ((routes (actor s))(rt \<mapsto> h)) s)) = mailbox (actor s)
        \<and> fnChan (actor (set_routes ((routes (actor s))(rt \<mapsto> h)) s)) = fnChan (actor s)
        \<and> mailbox (actor (set_events ((events (actor s))(ev \<mapsto> h)) s)) = mailbox (actor s)
        \<and> fnChan (actor (set_events ((events (actor s))(ev \<mapsto> h)) s)) = fnChan (actor s))"
  by (simp add: Next_def Invoke_def AddRouteHandler_def AddEventHandler_def set_routes_def
      set_events_def)

text \<open>The sample actor before its start, and after its destruction.\<close>

theorem C3_witness:
  "state (actor fresh_sys) \<noteq> started
   \<and> Next 0 fresh_sys = Returned fresh_sys \<and> Invoke 4 fresh_sys = Returned fresh_sys
   \<and> state (actor (mark_destroyed room_sys)) = destroyed
   \<and> AddRouteHandler 20 5 (mark_destroyed room_sys) = Returned (mark_destroyed room_sys)
   \<and> AddEventHandler 3 5 (mark_destroyed room_sys) = Returned (mark_destroyed room_sys)
   \<and> state (actor fresh_sys) = unstart
   \<and> AddRouteHandler 20 5 fresh_sys = Returned (set_routes [20 \<mapsto> 5] fresh_sys)
   \<and> AddEventHandler 3 5 fresh_sys = Returned (set_events [3 \<mapsto> 5] fresh_sys)"
proof -
  have a: "state (actor fresh_sys) = unstart" "routes (actor fresh_sys) = Map.empty"
    "events (actor fresh_sys) = Map.empty"
    by (simp_all add: sample)
  have b: "state (actor (mark_destroyed room_sys)) = destroyed"
    by (simp add: mark_destroyed_def)
  show ?thesis
    using C3_not_started [where s = fresh_sys and r = 0 and f = 4 and rt = 20 and h = 5
        and ev = 3]
      C3_not_started [where s = "mark_destroyed room_sys" and r = 0 and f = 4 and rt = 20
        and h = 5 and ev = 3]
      a b
    by simp
qed

subsection \<open>Next\<close>

text \<open>
  C7. On a started actor \<open>Next\<close> first bumps the version of its context, then raises
  the context's cancel signal, and only then sends the context to the mailbox. The
  trace gains the bump and then the cancel, in this order; the send acts on the state
  that already has both, it appends the context behind what the mailbox holds when
  there is room, and it leaves the caller parked in that state when the mailbox is full.
\<close>

theorem C7_Next_order:
  "state (actor s) = started \<Longrightarrow>
     trace (outcome_state (Next r s)) = trace s @ [VersionBumped r, CancelRaised r]
   \<and> trace (incrVersion r s) = trace s @ [VersionBumped r]
   \<and> trace (Cancel r (incrVersion r s)) = trace s @ [VersionBumped r, CancelRaised r]
   \<and> version (ctxs (incrVersion r s) r) = version (ctxs s r) + 1
   \<and> version (ctxs (Cancel r (incrVersion r s)) r) = version (ctxs s r) + 1
   \<and> cancel_signal (ctxs (Cancel r (incrVersion r s)) r)
   \<and> mailbox (actor (Cancel r (incrVersion r s))) = mailbox (actor s)
   \<and> Next r s =
       (if closed (mailbox (actor s)) then Panicked (Cancel r (incrVersion r s))
        else if length (buf (mailbox (actor s))) < cap (mailbox (actor s))
        then Returned (set_mailbox ((mailbox (actor s))\<lparr>buf := buf (mailbox (actor s)) @ [r]\<rparr>)
                         (Cancel r (incrVersion r s)))
        else Blocked (Cancel r (incrVersion r s)))"
  by (simp add: Next_def send_mailbox_def chan_send_def incrVersion_def Cancel_def upd_ctx_def
      log_def set_mailbox_def)

text \<open>A first delivery of context 0 to the sample actor.\<close>

theorem C7_witness:
  "state (actor room_sys) = started
   \<and> Next 0 room_sys = Returned (outcome_state (Next 0 room_sys))
   \<and> trace (outcome_state (Next 0 room_sys)) = [VersionBumped 0, CancelRaised 0]
   \<and> version (ctxs room_sys 0) = 0
   \<and> version (ctxs (outcome_state (Next 0 room_sys)) 0) = 1
   \<and> cancel_signal (ctxs (outcome_state (Next 0 room_sys)) 0)
   \<and> buf (mailbox (actor (outcome_state (Next 0 room_sys)))) = [0]"
  using C7_Next_order [of room_sys 0]
  by (simp add: sys_ops sample)

subsection \<open>Registering handlers\<close>

lemma find_append_first:
  "List.find P (xs @ ys) = (case List.find P xs of Some x \<Rightarrow> Some x | None \<Rightarrow> List.find P ys)"
  by (induction xs) simp_all

lemma last_write_wins_Nil: "last_write_wins [] m = m"
  by (simp add: last_write_wins_def)

lemma last_write_wins_Cons:
  "last_write_wins (p # ps) m = last_write_wins ps (m(fst p \<mapsto> snd p))"
  by (rule ext) (simp add: last_write_wins_def find_append_first split: option.split)

lemma AddRouteHandler_unstart:
  "state (actor s) = unstart \<Longrightarrow>
   AddRouteHandler rt h s = Returned (set_routes ((routes (actor s))(rt \<mapsto> h)) s)"
  by (simp add: AddRouteHandler_def)

lemma set_routes_facts:
  "state (actor (set_routes t s)) = state (actor s)"
  "routes (actor (set_routes t s)) = t"
  "set_routes t (set_routes t' s) = set_routes t s"
  by (simp_all add: set_routes_def)

lemma calls_AddRouteHandler_unstart:
  "state (actor s) = unstart \<Longrightarrow>
   calls (map (\<lambda>p. AddRouteHandler (fst p) (snd p)) ps) s =
     Returned (set_routes (last_write_wins ps (routes (actor s))) s)"
proof (induction ps arbitrary: s)
  case Nil
  then show ?case
    by (simp add: last_write_wins_Nil set_routes_def)
next
  case (Cons p ps)
  let ?s1 = "set_routes ((routes (actor s))(fst p \<mapsto> snd p)) s"
  have "state (actor ?s1) = unstart"
    using Cons.prems by (simp add: set_routes_facts)
  then have "calls (map (\<lambda>p. AddRouteHandler (fst p) (snd p)) ps) ?s1 =
      Returned (set_routes (last_write_wins ps (routes (actor ?s1))) ?s1)"
    by (rule Cons.IH)
  then show ?case
    using Cons.prems
    by (simp add: AddRouteHandler_unstart set_routes_facts last_write_wins_Cons)
qed

lemma send_fnChan_room:
  "\<not> closed (fnChan (actor s)) \<Longrightarrow> length (buf (fnChan (actor s))) < cap (fnChan (actor s)) \<Longrightarrow>
   send_fnChan c s = Returned (set_fnChan ((fnChan (actor s))\<lparr>buf := buf (fnChan (actor s)) @ [c]\<rparr>) s)"
  by (simp add: send_fnChan_def chan_send_def)

text \<open>
  C8. Before the start, \<open>AddRouteHandler\<close> and \<open>AddEventHandler\<close> write the
  actor's table directly, and any sequence of \<open>AddRouteHandler\<close> calls leaves the
  last-write-wins table of the sequence over the table it started from. On a started
  actor whose control queue is open and has room, each call appends its mutation to the
  control queue and leaves the tables alone; the worker takes a queued entry and calls
  it, and then the route entry stores the handler and publishes the route under the
  actor's kind in the Scheduler's route table, while the event entry stores the handler
  and publishes nothing. On a destroyed actor both calls change nothing.
\<close>

theorem C8_handler_registration:
  "(state (actor s) = unstart \<longrightarrow>
      calls (map (\<lambda>p. AddRouteHandler (fst p) (snd p)) ps) s =
        Returned (set_routes (last_write_wins ps (routes (actor s))) s)
      \<and> AddRouteHandler rt h s = Returned (set_routes ((routes (actor s))(rt \<mapsto> h)) s)
      \<and> AddEventHandler ev h s = Returned (set_events ((events (actor s))(ev \<mapsto> h)) s))
   \<and> (state (actor s) = started \<and> \<not> closed (fnChan (actor s))
        \<and> length (buf (fnChan (actor s))) < cap (fnChan (actor s)) \<longrightarrow>
      AddRouteHandler rt h s =
        Returned (set_fnChan ((fnChan (actor s))\<lparr>buf := buf (fnChan (actor s)) @ [SetRoute rt h]\<rparr>) s)
      \<and> AddEventHandler ev h s =
        Returned (set_fnChan ((fnChan (actor s))\<lparr>buf := buf (fnChan (actor s)) @ [SetEvent ev h]\<rparr>) s))
   \<and> routes (actor (xcall_Call (command_body b (SetRoute rt h)) s)) = (routes (actor s))(rt \<mapsto> h)
   \<and> sched_routes (scheduler (xcall_Call (command_body b (SetRoute rt h)) s))
        = (sched_routes (scheduler s))(rt \<mapsto> Kind (actor s))
   \<and> events (actor (xcall_Call (command_body b (SetEvent ev h)) s)) = (events (actor s))(ev \<mapsto> h)
   \<and> sched_routes (scheduler (xcall_Call (command_body b (SetEvent ev h)) s))
        = sched_routes (scheduler s)
   \<and> (chan_recv (fnChan (actor s)) = Item c q \<longrightarrow>
        dispatch_step b FromFnChan s = Continue (xcall_Call (command_body b c) (set_fnChan q s)))
   \<and> (state (actor s) = destroyed \<longrightarrow>
        AddRouteHandler rt h s = Returned s \<and> AddEventHandler ev h s = Returned s)"
proof -
  have pre: "state (actor s) = unstart \<Longrightarrow>
      calls (map (\<lambda>p. AddRouteHandler (fst p) (snd p)) ps) s =
        Returned (set_routes (last_write_wins ps (routes (actor s))) s)"
    by (rule calls_AddRouteHandler_unstart)
  have one: "state (actor s) = unstart \<Longrightarrow>
      AddRouteHandler rt h s = Returned (set_routes ((routes (actor s))(rt \<mapsto> h)) s)
      \<and> AddEventHandler ev h s = Returned (set_events ((events (actor s))(ev \<mapsto> h)) s)"
    by (simp add: AddRouteHandler_def AddEventHandler_def)
  have run: "state (actor s) = started \<Longrightarrow> \<not> closed (fnChan (actor s)) \<Longrightarrow>
      length (buf (fnChan (actor s))) < cap (fnChan (actor s)) \<Longrightarrow>
      AddRouteHandler rt h s =
        Returned (set_fnChan ((fnChan (actor s))\<lparr>buf := buf (fnChan (actor s)) @ [SetRoute rt h]\<rparr>) s)
      \<and> AddEventHandler ev h s =
        Returned (set_fnChan ((fnChan (actor s))\<lparr>buf := buf (fnChan (actor s)) @ [SetEvent ev h]\<rparr>) s)"
    by (simp add: AddRouteHandler_def AddEventHandler_def send_fnChan_room)
  have cmd: "routes (actor (xcall_Call (command_body b (SetRoute rt h)) s)) = (routes (actor s))(rt \<mapsto> h)"
    "sched_routes (scheduler (xcall_Call (command_body b (SetRoute rt h)) s))
        = (sched_routes (scheduler s))(rt \<mapsto> Kind (actor s))"
    "events (actor (xcall_Call (command_body b (SetEvent ev h)) s)) = (events (actor s))(ev \<mapsto> h)"
    "sched_routes (scheduler (xcall_Call (command_body b (SetEvent ev h)) s))
        = sched_routes (scheduler s)"
    by (simp_all add: xcall_Call_def command_body_def set_routes_def set_events_def Kind_def)
  have gone: "state (actor s) = destroyed \<Longrightarrow>
        AddRouteHandler rt h s = Returned s \<and> AddEventHandler ev h s = Returned s"
    by (simp add: AddRouteHandler_def AddEventHandler_def)
  have wrk: "chan_recv (fnChan (actor s)) = Item c q \<Longrightarrow>
        dispatch_step b FromFnChan s = Continue (xcall_Call (command_body b c) (set_fnChan q s))"
    by (simp add: dispatch_step_def)
  from pre one run cmd wrk gone show ?thesis
    by blast
qed

text \<open>
  Route 10 registered twice and route 20 once before the start; route 20 registered
  after the start and taken from the control queue by the worker; and after the
  destruction.
\<close>

theorem C8_witness:
  "state (actor fresh_sys) = unstart
   \<and> calls [AddRouteHandler 10 1, AddRouteHandler 20 2, AddRouteHandler 10 3] fresh_sys
       = Returned (set_routes [10 \<mapsto> 3, 20 \<mapsto> 2] fresh_sys)
   \<and> state (actor room_sys) = started
   \<and> AddRouteHandler 20 2 room_sys
       = Returned (set_fnChan \<lparr>buf = [SetRoute 20 2], cap = 2, closed = False\<rparr> room_sys)
   \<and> routes (actor (xcall_Call (command_body quiet (SetRoute 20 2)) room_sys)) = [10 \<mapsto> 1, 20 \<mapsto> 2]
   \<and> sched_routes (scheduler (xcall_Call (command_body quiet (SetRoute 20 2)) room_sys))
       = [20 \<mapsto> ''room'']
   \<and> chan_recv (fnChan (actor (outcome_state (AddRouteHandler 20 2 room_sys))))
       = Item (SetRoute 20 2) room_chan
   \<and> dispatch_step quiet FromFnChan (outcome_state (AddRouteHandler 20 2 room_sys))
       = Continue (xcall_Call (command_body quiet (SetRoute 20 2))
           (set_fnChan room_chan (outcome_state (AddRouteHandler 20 2 room_sys))))
   \<and> state (actor (mark_destroyed room_sys)) = destroyed
   \<and> AddRouteHandler 20 2 (mark_destroyed room_sys) = Returned (mark_destroyed room_sys)"
proof -
  let ?ps = "[(10, 1), (20, 2), (10, 3)] :: (route \<times> handler) list"
  have lww: "last_write_wins ?ps Map.empty = [10 \<mapsto> 3, 20 \<mapsto> 2]"
    by (rule ext) (simp add: last_write_wins_def)
  have a: "state (actor fresh_sys) = unstart" "routes (actor fresh_sys) = Map.empty"
    by (simp_all add: sample)
  have c: "state (actor room_sys) = started" "fnChan (actor room_sys) = \<lparr>buf = [], cap = 2, closed = False\<rparr>"
    "routes (actor room_sys) = [10 \<mapsto> 1]" "sched_routes (scheduler room_sys) = Map.empty"
    "Kind (actor room_sys) = ''room''"
    by (simp_all add: sample Kind_def)
  have d: "state (actor (mark_destroyed room_sys)) = destroyed"
    by (simp add: mark_destroyed_def)
  note t1 = C8_handler_registration [where s = fresh_sys and ps = ?ps]
  note t2 = C8_handler_registration [where s = room_sys and rt = 20 and h = 2 and b = quiet]
  note t3 = C8_handler_registration [where s = "mark_destroyed room_sys" and rt = 20 and h = 2]
  have m: "map (\<lambda>p. AddRouteHandler (fst p) (snd p)) ?ps
      = [AddRouteHandler 10 1, AddRouteHandler 20 2, AddRouteHandler 10 3]"
    by simp
  have "calls (map (\<lambda>p. AddRouteHandler (fst p) (snd p)) ?ps) fresh_sys
      = Returned (set_routes (last_write_wins ?ps (routes (actor fresh_sys))) fresh_sys)"
    using t1 a(1) by blast
  then have w1: "calls [AddRouteHandler 10 1, AddRouteHandler 20 2, AddRouteHandler 10 3] fresh_sys
       = Returned (set_routes [10 \<mapsto> 3, 20 \<mapsto> 2] fresh_sys)"
    by (simp only: m a(2) lww)
  have w2: "AddRouteHandler 20 2 room_sys
       = Returned (set_fnChan \<lparr>buf = [SetRoute 20 2], cap = 2, closed = False\<rparr> room_sys)"
    using t2 c by simp
  have w3: "routes (actor (xcall_Call (command_body quiet (SetRoute 20 2)) room_sys)) = [10 \<mapsto> 1, 20 \<mapsto> 2]"
    "sched_routes (scheduler (xcall_Call (command_body quiet (SetRoute 20 2)) room_sys))
       = [20 \<mapsto> ''room'']"
    using t2 c by simp_all
  have w4: "AddRouteHandler 20 2 (mark_destroyed room_sys) = Returned (mark_destroyed room_sys)"
    using t3 d by simp
  have q: "chan_recv (fnChan (actor (outcome_state (AddRouteHandler 20 2 room_sys))))
       = Item (SetRoute 20 2) room_chan"
    by (simp add: w2 c(2) set_fnChan_def chan_recv_def room_chan_def)
  note t4 = C8_handler_registration [where s = "outcome_state (AddRouteHandler 20 2 room_sys)"
      and b = quiet and c = "SetRoute 20 2" and q = room_chan]
  have w5: "dispatch_step quiet FromFnChan (outcome_state (AddRouteHandler 20 2 room_sys))
       = Continue (xcall_Call (command_body quiet (SetRoute 20 2))
           (set_fnChan room_chan (outcome_state (AddRouteHandler 20 2 room_sys))))"
    using t4 q by blast
  from a(1) w1 c(1) w2 w3 q w5 d w4 show ?thesis
    by blast
qed

subsection \<open>The worker and a dequeued context\<close>

lemma run_handler_Message:
  "kind (ctxs s r) = Message \<Longrightarrow>
   run_handler b r s =
     (case routes (actor s) (ctx_route (ctxs s r)) of
        Some h \<Rightarrow> xcall_Call (handler_body b h r) s
      | None \<Rightarrow> s)"
  by (simp add: run_handler_def)

lemma run_handler_Event:
  "kind (ctxs s r) = Event \<Longrightarrow>
   run_handler b r s =
     (case events (actor s) (ctx_event (ctxs s r)) of
        Some h \<Rightarrow> xcall_Call (handler_body b h r) s
      | None \<Rightarrow> s)"
  by (simp add: run_handler_def)

lemma xcall_Call_Faulted: "f s = Faulted s' \<Longrightarrow> xcall_Call f s = log FaultLogged s'"
  by (simp add: xcall_Call_def)

lemma on_mailbox_gates:
  "on_mailbox b r s =
     (case compareVersionExecDefer b r (version (ctxs s r)) (run_handler b r s) of
        Finished s2 \<Rightarrow> Finished (compareVersionRecycle r (version (ctxs s r)) s2)
      | Faulted s2 \<Rightarrow> Faulted s2)"
  by (simp add: on_mailbox_def loadVersion_def Let_def)

lemma dispatch_step_item:
  "chan_recv (mailbox (actor s)) = Item r m \<Longrightarrow>
   dispatch_step b FromMailbox s =
     (case on_mailbox b r (set_mailbox m s) of
        Finished s' \<Rightarrow> Continue s'
      | Faulted s' \<Rightarrow> Crashed s')"
  by (simp add: dispatch_step_def)

lemma on_mailbox_Faulted:
  assumes "on_mailbox b r s = Faulted x"
  shows "version (ctxs (run_handler b r s) r) = version (ctxs s r)
    \<and> (\<exists>f. defer_fn (ctxs (run_handler b r s) r) = Some f
          \<and> callback_body b f (log (DeferRan r f) (run_handler b r s)) = Faulted x)"
  using assms
  by (auto simp add: on_mailbox_gates compareVersionExecDefer_def
      split: if_splits option.splits run.splits)

text \<open>
  C4. For a context the worker has dequeued: a Message context is looked up in the route
  table and an Event context in the event table; without a handler the context is
  dropped and the state stays as it is; a handler that faults is caught, the fault is
  logged and the actor is as the handler left it; the iteration that took the context
  from the mailbox goes on to the next one, with the rest of the schedule, whenever the
  two gates come back, and the only thing that can keep them from coming back is a
  fault of the finalizer itself, never one of the handler; and after the handler the
  finalize gate runs before the recycle gate, the second on the state the first has
  left, both on the version read before the handler ran.
\<close>

theorem C4_dispatch_context:
  "(kind (ctxs s r) = Message \<longrightarrow>
      run_handler b r s =
        (case routes (actor s) (ctx_route (ctxs s r)) of
           Some h \<Rightarrow> xcall_Call (handler_body b h r) s
         | None \<Rightarrow> s))
   \<and> (kind (ctxs s r) = Event \<longrightarrow>
      run_handler b r s =
        (case events (actor s) (ctx_event (ctxs s r)) of
           Some h \<Rightarrow> xcall_Call (handler_body b h r) s
         | None \<Rightarrow> s))
   \<and> (kind (ctxs s r) = Message \<and> routes (actor s) (ctx_route (ctxs s r)) = None \<longrightarrow>
        run_handler b r s = s)
   \<and> (kind (ctxs s r) = Event \<and> events (actor s) (ctx_event (ctxs s r)) = None \<longrightarrow>
        run_handler b r s = s)
   \<and> (handler_body b h r s = Faulted s' \<longrightarrow>
        xcall_Call (handler_body b h r) s = log FaultLogged s'
        \<and> actor (log FaultLogged s') = actor s')
   \<and> (chan_recv (mailbox (actor s)) = Item r m \<longrightarrow>
        dispatch_step b FromMailbox s =
          (case on_mailbox b r (set_mailbox m s) of
             Finished s1 \<Rightarrow> Continue s1
           | Faulted s1 \<Rightarrow> Crashed s1))
   \<and> (chan_recv (mailbox (actor s)) = Item r m \<and> on_mailbox b r (set_mailbox m s) = Finished s1
        \<longrightarrow> dispatch_step b FromMailbox s = Continue s1
            \<and> dispatch b (FromMailbox # cs) s = dispatch b cs s1)
   \<and> (on_mailbox b r s = Faulted x \<longrightarrow>
        version (ctxs (run_handler b r s) r) = version (ctxs s r)
        \<and> (\<exists>f. defer_fn (ctxs (run_handler b r s) r) = Some f
              \<and> callback_body b f (log (DeferRan r f) (run_handler b r s)) = Faulted x))
   \<and> on_mailbox b r s =
        (case compareVersionExecDefer b r (version (ctxs s r)) (run_handler b r s) of
           Finished s2 \<Rightarrow> Finished (compareVersionRecycle r (version (ctxs s r)) s2)
         | Faulted s2 \<Rightarrow> Faulted s2)"
proof -
  have miss: "kind (ctxs s r) = Message \<Longrightarrow> routes (actor s) (ctx_route (ctxs s r)) = None \<Longrightarrow>
      run_handler b r s = s"
    "kind (ctxs s r) = Event \<Longrightarrow> events (actor s) (ctx_event (ctxs s r)) = None \<Longrightarrow>
      run_handler b r s = s"
    by (simp_all add: run_handler_def)
  have caught: "handler_body b h r s = Faulted s' \<Longrightarrow>
      xcall_Call (handler_body b h r) s = log FaultLogged s' \<and> actor (log FaultLogged s') = actor s'"
    by (simp add: xcall_Call_Faulted log_def)
  have goes_on: "chan_recv (mailbox (actor s)) = Item r m \<Longrightarrow>
      on_mailbox b r (set_mailbox m s) = Finished s1 \<Longrightarrow>
      dispatch_step b FromMailbox s = Continue s1
      \<and> dispatch b (FromMailbox # cs) s = dispatch b cs s1"
    by (simp add: dispatch_step_item)
  from run_handler_Message [of s r b] run_handler_Event [of s r b] miss caught
    dispatch_step_item [of s r m b] goes_on on_mailbox_Faulted [of b r s x]
    on_mailbox_gates [of b r s]
  show ?thesis
    by blast
qed

text \<open>
  A faulting handler for route 10 on the sample actor, the event context 2, for which
  nothing is registered, a message for route 10 before anything is registered, and a
  finalizer that faults.
\<close>

theorem C4_witness:
  "kind (ctxs room_sys 0) = Message
   \<and> routes (actor room_sys) (ctx_route (ctxs room_sys 0)) = Some 1
   \<and> handler_body faulty 1 0 room_sys = Faulted room_sys
   \<and> run_handler faulty 0 room_sys = log FaultLogged room_sys
   \<and> kind (ctxs room_sys 2) = Event
   \<and> events (actor room_sys) (ctx_event (ctxs room_sys 2)) = None
   \<and> run_handler faulty 2 room_sys = room_sys
   \<and> kind (ctxs fresh_sys 0) = Message
   \<and> routes (actor fresh_sys) (ctx_route (ctxs fresh_sys 0)) = None
   \<and> run_handler faulty 0 fresh_sys = fresh_sys
   \<and> chan_recv (mailbox (actor (outcome_state (Next 0 room_sys)))) = Item 0 room_chan
   \<and> on_mailbox faulty 0 (set_mailbox room_chan (outcome_state (Next 0 room_sys)))
       = Finished (iteration_state (dispatch_step faulty FromMailbox
           (outcome_state (Next 0 room_sys))))
   \<and> dispatch_step faulty FromMailbox (outcome_state (Next 0 room_sys))
       = Continue (iteration_state (dispatch_step faulty FromMailbox
           (outcome_state (Next 0 room_sys))))
   \<and> trace (iteration_state (dispatch_step faulty FromMailbox
        (outcome_state (Next 0 room_sys))))
       = [VersionBumped 0, CancelRaised 0, FaultLogged, DeferRan 0 7, Recycled 0 0]
   \<and> dispatch faulty [FromMailbox, FromMailbox] (outcome_state (Next 0 room_sys))
       = dispatch faulty [FromMailbox]
           (iteration_state (dispatch_step faulty FromMailbox (outcome_state (Next 0 room_sys))))
   \<and> on_mailbox failing_finalizer 0 room_sys = Faulted (log (DeferRan 0 7) room_sys)
   \<and> defer_fn (ctxs (run_handler failing_finalizer 0 room_sys) 0) = Some 7"
proof -
  let ?s1 = "outcome_state (Next 0 room_sys)"
  let ?s2 = "iteration_state (dispatch_step faulty FromMailbox ?s1)"
  have a: "kind (ctxs room_sys 0) = Message"
    "routes (actor room_sys) (ctx_route (ctxs room_sys 0)) = Some 1"
    "handler_body faulty 1 0 room_sys = Faulted room_sys"
    "kind (ctxs room_sys 2) = Event"
    "events (actor room_sys) (ctx_event (ctxs room_sys 2)) = None"
    by (simp_all add: sample)
  have n: "kind (ctxs fresh_sys 0) = Message"
    "routes (actor fresh_sys) (ctx_route (ctxs fresh_sys 0)) = None"
    by (simp_all add: sample)
  have q: "chan_recv (mailbox (actor ?s1)) = Item 0 room_chan"
    by (simp add: Next_def send_mailbox_def sys_ops chan_ops sample)
  have o: "on_mailbox faulty 0 (set_mailbox room_chan ?s1) = Finished ?s2"
    by (simp add: Next_def send_mailbox_def dispatch_step_def on_mailbox_def run_handler_def
        xcall_Call_def Let_def sys_ops chan_ops sample)
  have tr: "trace ?s2 = [VersionBumped 0, CancelRaised 0, FaultLogged, DeferRan 0 7, Recycled 0 0]"
    by (simp add: Next_def send_mailbox_def dispatch_step_def on_mailbox_def run_handler_def
        xcall_Call_def Let_def sys_ops chan_ops sample)
  have ff: "on_mailbox failing_finalizer 0 room_sys = Faulted (log (DeferRan 0 7) room_sys)"
    by (simp add: on_mailbox_def run_handler_def xcall_Call_def Let_def sys_ops sample)
  note t0 = C4_dispatch_context [where s = room_sys and r = 0 and b = faulty and h = 1
      and s' = room_sys]
  note t2 = C4_dispatch_context [where s = room_sys and r = 2 and b = faulty]
  note t3 = C4_dispatch_context [where s = ?s1 and r = 0 and b = faulty and m = room_chan
      and ?s1.0 = ?s2 and cs = "[FromMailbox]"]
  note t4 = C4_dispatch_context [where s = fresh_sys and r = 0 and b = faulty]
  note t5 = C4_dispatch_context [where s = room_sys and r = 0 and b = failing_finalizer
      and x = "log (DeferRan 0 7) room_sys"]
  have w1: "run_handler faulty 0 room_sys = log FaultLogged room_sys"
    using t0 a(1,2,3) by simp
  have w2: "run_handler faulty 2 room_sys = room_sys"
    using t2 a(4,5) by blast
  have w5: "run_handler faulty 0 fresh_sys = fresh_sys"
    using t4 n by blast
  have w3: "dispatch_step faulty FromMailbox ?s1 = Continue ?s2"
    "dispatch faulty [FromMailbox, FromMailbox] ?s1 = dispatch faulty [FromMailbox] ?s2"
    using t3 q o by blast+
  have "\<exists>f. defer_fn (ctxs (run_handler failing_finalizer 0 room_sys) 0) = Some f
      \<and> callback_body failing_finalizer f
          (log (DeferRan 0 f) (run_handler failing_finalizer 0 room_sys))
        = Faulted (log (DeferRan 0 7) room_sys)"
    using t5 ff by blast
  then have w6: "defer_fn (ctxs (run_handler failing_finalizer 0 room_sys) 0) = Some 7"
    by (auto simp add: run_handler_def xcall_Call_def sample)
  from a w1 w2 n w5 q o w3 tr ff w6 show ?thesis
    by blast
qed

subsection \<open>Versions and the gates\<close>

lemma Next_version:
  "state (actor s) = started \<Longrightarrow>
   version (ctxs (outcome_state (Next r s)) r) = version (ctxs s r) + 1"
  by (simp add: Next_def send_mailbox_def chan_send_def set_mailbox_def incrVersion_def
      Cancel_def upd_ctx_def log_def)

lemma gates_skip:
  assumes "version (ctxs s1 r) \<noteq> v"
  shows "compareVersionExecDefer b r v s1 = Finished (upd_ctx r (\<lambda>c. c\<lparr>defer_fn := None\<rparr>) s1)"
    and "compareVersionRecycle r v (upd_ctx r (\<lambda>c. c\<lparr>defer_fn := None\<rparr>) s1)
      = upd_ctx r (\<lambda>c. c\<lparr>defer_fn := None\<rparr>) s1"
  using assms
  by (simp_all add: compareVersionExecDefer_def compareVersionRecycle_def upd_ctx_def)

text \<open>
  C1, as claimed, fails. Context 0 is delivered twice before the worker dequeues it: its
  version goes from 1 to 2, yet the worker reads the version only when it dequeues, so
  the handler of the first delivery finishes with the version it started from, and the
  finalizer runs and the context is recycled. With two contexts, 1 and then 0, the
  versions are 6 and 1, the first is not below the second, and again the post-steps of
  the first run.
\<close>

theorem C1_counterexample:
  "Next 0 room_sys = Returned (outcome_state (Next 0 room_sys))
   \<and> Next 0 (outcome_state (Next 0 room_sys)) = Returned twice_same
   \<and> buf (mailbox (actor twice_same)) = [0, 0]
   \<and> version (ctxs (outcome_state (Next 0 room_sys)) 0) = 1
   \<and> version (ctxs twice_same 0) = 2
   \<and> dispatch_step quiet FromMailbox twice_same
       = Continue (iteration_state (dispatch_step quiet FromMailbox twice_same))
   \<and> trace (iteration_state (dispatch_step quiet FromMailbox twice_same))
       = [VersionBumped 0, CancelRaised 0, VersionBumped 0, CancelRaised 0,
          DeferRan 0 7, Recycled 0 0]
   \<and> Next 1 room_sys = Returned (outcome_state (Next 1 room_sys))
   \<and> Next 0 (outcome_state (Next 1 room_sys)) = Returned two_contexts
   \<and> buf (mailbox (actor two_contexts)) = [1, 0]
   \<and> version (ctxs two_contexts 1) = 6
   \<and> version (ctxs two_contexts 0) = 1
   \<and> trace (iteration_state (dispatch_step quiet FromMailbox two_contexts))
       = [VersionBumped 1, CancelRaised 1, VersionBumped 0, CancelRaised 0,
          DeferRan 1 7, Recycled 1 0]"
  by (simp add: twice_same_def two_contexts_def Next_def send_mailbox_def dispatch_step_def
      on_mailbox_def run_handler_def xcall_Call_def Let_def sys_ops chan_ops sample)

text \<open>
  C1, amended. Every \<open>Next\<close> on a started actor raises the version of the context it
  is given by one, so that a context delivered twice has a strictly smaller version
  after its first delivery than after its second. When the version of a dequeued
  context after its handler differs from the version the worker read at the dequeue,
  as it does when a further delivery of the same context is accepted while the handler
  runs, the post-steps are skipped: the finalizer is discarded without being run, the
  context is not recycled, and the trace gains nothing.
\<close>

theorem C1_version_gate:
  "(state (actor s) = started \<longrightarrow>
      version (ctxs (outcome_state (Next r s)) r) = version (ctxs s r) + 1
      \<and> version (ctxs s r) < version (ctxs (outcome_state (Next r s)) r))
   \<and> (version (ctxs (run_handler b r s) r) \<noteq> version (ctxs s r) \<longrightarrow>
        on_mailbox b r s
          = Finished (upd_ctx r (\<lambda>c. c\<lparr>defer_fn := None\<rparr>) (run_handler b r s))
        \<and> trace (run_state (on_mailbox b r s)) = trace (run_handler b r s))"
proof -
  have bump: "state (actor s) = started \<Longrightarrow>
      version (ctxs (outcome_state (Next r s)) r) = version (ctxs s r) + 1
      \<and> version (ctxs s r) < version (ctxs (outcome_state (Next r s)) r)"
    by (simp add: Next_version)
  have skip: "version (ctxs (run_handler b r s) r) \<noteq> version (ctxs s r) \<Longrightarrow>
        on_mailbox b r s
          = Finished (upd_ctx r (\<lambda>c. c\<lparr>defer_fn := None\<rparr>) (run_handler b r s))"
    by (simp add: on_mailbox_gates gates_skip)
  have quiet: "version (ctxs (run_handler b r s) r) \<noteq> version (ctxs s r) \<Longrightarrow>
        trace (run_state (on_mailbox b r s)) = trace (run_handler b r s)"
    by (simp add: skip upd_ctx_def)
  from bump skip quiet show ?thesis
    by blast
qed

text \<open>
  A handler that forwards its context to the actor again bumps the version while it
  runs, and the post-steps are skipped: nothing but the two deliveries is in the trace.
\<close>

theorem C1_witness:
  "state (actor room_sys) = started
   \<and> version (ctxs room_sys 0) = 0
   \<and> version (ctxs (outcome_state (Next 0 room_sys)) 0) = 1
   \<and> version (ctxs (run_handler forwarding 0 (outcome_state (Next 0 room_sys))) 0) = 2
   \<and> on_mailbox forwarding 0 (outcome_state (Next 0 room_sys))
       = Finished (upd_ctx 0 (\<lambda>c. c\<lparr>defer_fn := None\<rparr>)
           (run_handler forwarding 0 (outcome_state (Next 0 room_sys))))
   \<and> trace (run_state (on_mailbox forwarding 0 (outcome_state (Next 0 room_sys))))
       = [VersionBumped 0, CancelRaised 0, VersionBumped 0, CancelRaised 0]"
proof -
  let ?s1 = "outcome_state (Next 0 room_sys)"
  have a: "state (actor room_sys) = started" "version (ctxs room_sys 0) = 0"
    by (simp_all add: sample)
  have f: "version (ctxs (run_handler forwarding 0 ?s1) 0) = 2"
    "trace (run_handler forwarding 0 ?s1)
      = [VersionBumped 0, CancelRaised 0, VersionBumped 0, CancelRaised 0]"
    by (simp_all add: Next_def send_mailbox_def run_handler_def xcall_Call_def sys_ops
        chan_ops sample)
  note t0 = C1_version_gate [where s = room_sys and r = 0]
  note t1 = C1_version_gate [where s = ?s1 and r = 0 and b = forwarding]
  have w1: "version (ctxs ?s1 0) = 1"
    using t0 a by simp
  have w2: "on_mailbox forwarding 0 ?s1
      = Finished (upd_ctx 0 (\<lambda>c. c\<lparr>defer_fn := None\<rparr>) (run_handler forwarding 0 ?s1))"
    using t1 f(1) w1 by simp
  have "trace (run_state (on_mailbox forwarding 0 ?s1)) = trace (run_handler forwarding 0 ?s1)"
    using t1 f(1) w1 by (simp add: upd_ctx_def)
  then have w3: "trace (run_state (on_mailbox forwarding 0 ?s1))
      = [VersionBumped 0, CancelRaised 0, VersionBumped 0, CancelRaised 0]"
    by (simp only: f(2))
  from a w1 f(1) w2 w3 show ?thesis
    by blast
qed

subsection \<open>The proxy\<close>

text \<open>
  C5. \<open>Response\<close> decides from the request's attribution alone: with a gateway id it
  makes one Push call to that gateway's connection and hands back the Link's answer;
  without a gateway id but with a node id it makes one Deliver call to that node and
  user and hands back the Link's answer; with neither it makes no call and hands back
  nil.
\<close>

theorem C5_Response:
  "(req_GID req \<noteq> [] \<longrightarrow>
      Proxy_Response link req msg =
        ([LinkPush \<lparr>pa_GID = req_GID req, pa_Kind = Conn, pa_Target = req_CID req,
            pa_Message = Some \<lparr>Seq = Seq (req_Message req), Route = Route (req_Message req),
              Data = msg\<rparr>\<rparr>],
         link (LinkPush \<lparr>pa_GID = req_GID req, pa_Kind = Conn, pa_Target = req_CID req,
            pa_Message = Some \<lparr>Seq = Seq (req_Message req), Route = Route (req_Message req),
              Data = msg\<rparr>\<rparr>)))
   \<and> (req_GID req = [] \<and> req_NID req \<noteq> [] \<longrightarrow>
      Proxy_Response link req msg =
        ([LinkDeliver \<lparr>la_NID = req_NID req, la_UID = req_UID req,
            la_Message = Some \<lparr>Seq = Seq (req_Message req), Route = Route (req_Message req),
              Data = msg\<rparr>\<rparr>],
         link (LinkDeliver \<lparr>la_NID = req_NID req, la_UID = req_UID req,
            la_Message = Some \<lparr>Seq = Seq (req_Message req), Route = Route (req_Message req),
              Data = msg\<rparr>\<rparr>)))
   \<and> (req_GID req = [] \<and> req_NID req = [] \<longrightarrow> Proxy_Response link req msg = ([], None))"
  by (simp add: Proxy_Response_def Let_def)

text \<open>A request from a gateway, one from another node, and one with no origin.\<close>

theorem C5_witness:
  "req_GID gate_req \<noteq> []
   \<and> Proxy_Response link_down gate_req 5 =
        ([LinkPush \<lparr>pa_GID = ''gate-1'', pa_Kind = Conn, pa_Target = 9,
            pa_Message = Some \<lparr>Seq = 1, Route = 10, Data = 5\<rparr>\<rparr>], Some ''unreachable'')
   \<and> req_GID node_req = [] \<and> req_NID node_req \<noteq> []
   \<and> Proxy_Response link_up node_req 5 =
        ([LinkDeliver \<lparr>la_NID = ''node-2'', la_UID = 42,
            la_Message = Some \<lparr>Seq = 1, Route = 10, Data = 5\<rparr>\<rparr>], None)
   \<and> req_GID local_req = [] \<and> req_NID local_req = []
   \<and> Proxy_Response link_down local_req 5 = ([], None)"
  using C5_Response [where req = gate_req and link = link_down and msg = 5]
    C5_Response [where req = node_req and link = link_up and msg = 5]
    C5_Response [where req = local_req and link = link_down and msg = 5]
  by (simp add: wire)

text \<open>
  C6, as claimed, fails for a local delivery whose \<open>Message\<close> is nil: reading
  \<open>args.Message.Seq\<close> for the router's arguments panics, and no call is made at all,
  on the router no more than on the Link.
\<close>

theorem C6_counterexample:
  "da_NID (deliver_nil ''node-1'') = ''node-1''
   \<and> da_Message (deliver_nil ''node-1'') = None
   \<and> Proxy_Deliver ''node-1'' link_up (deliver_nil ''node-1'') = ([], NilPanic)"
  by (simp add: Proxy_Deliver_def deliver_nil_def)

text \<open>
  C6, amended. \<open>Deliver\<close> to the local node id makes no call on the Link, and with a
  message present its one call is the router's local delivery; to any other node id it
  makes exactly one call, the Link's Deliver, with the arguments it was given.
\<close>

theorem C6_Deliver:
  "(da_NID args = nid \<longrightarrow> filter is_link_call (fst (Proxy_Deliver nid link args)) = [])
   \<and> (da_NID args = nid \<and> da_Message args = Some m \<longrightarrow>
        fst (Proxy_Deliver nid link args) =
          [RouterDeliver [] nid 0 (da_UID args) (Seq m) (Route m) (Data m)])
   \<and> (da_NID args \<noteq> nid \<longrightarrow>
        fst (Proxy_Deliver nid link args) =
          [LinkDeliver \<lparr>la_NID = da_NID args, la_UID = da_UID args,
             la_Message = da_Message args\<rparr>])"
  by (simp add: Proxy_Deliver_def Let_def split: option.split)

text \<open>Node 1 delivering to itself and to node 2.\<close>

theorem C6_witness:
  "da_NID (deliver_to ''node-1'') = ''node-1''
   \<and> da_Message (deliver_to ''node-1'') = Some ping
   \<and> fst (Proxy_Deliver ''node-1'' link_up (deliver_to ''node-1''))
       = [RouterDeliver [] ''node-1'' 0 42 1 10 0]
   \<and> filter is_link_call (fst (Proxy_Deliver ''node-1'' link_up (deliver_to ''node-1''))) = []
   \<and> da_NID (deliver_to ''node-2'') \<noteq> ''node-1''
   \<and> fst (Proxy_Deliver ''node-1'' link_up (deliver_to ''node-2''))
       = [LinkDeliver \<lparr>la_NID = ''node-2'', la_UID = 42, la_Message = Some ping\<rparr>]"
  using C6_Deliver [where args = "deliver_to ''node-1''" and nid = "''node-1''"
      and link = link_up and m = ping]
    C6_Deliver [where args = "deliver_to ''node-2''" and nid = "''node-1''" and link = link_up]
  by (simp add: wire)

text \<open>
  C10, as claimed, fails for a local delivery whose \<open>Message\<close> is nil: the read of
  \<open>args.Message.Seq\<close> panics, so the call does not hand back nil.
\<close>

theorem C10_counterexample:
  "da_NID (deliver_nil ''node-1'') = ''node-1''
   \<and> snd (Proxy_Deliver ''node-1'' link_down (deliver_nil ''node-1'')) = NilPanic
   \<and> snd (Proxy_Deliver ''node-1'' link_down (deliver_nil ''node-1'')) \<noteq> Returns None"
  by (simp add: Proxy_Deliver_def deliver_nil_def)

text \<open>
  C10, amended. \<open>Deliver\<close> to the local node id with a message present hands back nil
  once the router's local delivery has been called, whatever that call did; and to the
  local node id it never hands back an error.
\<close>

theorem C10_Deliver_local_nil:
  "(da_NID args = nid \<and> da_Message args = Some m \<longrightarrow>
        snd (Proxy_Deliver nid link args) = Returns None)
   \<and> (da_NID args = nid \<longrightarrow> snd (Proxy_Deliver nid link args) \<noteq> Returns (Some e))"
  by (simp add: Proxy_Deliver_def Let_def split: option.split)

text \<open>A local delivery on a node whose Link fails every call.\<close>

theorem C10_witness:
  "da_NID (deliver_to ''node-1'') = ''node-1''
   \<and> da_Message (deliver_to ''node-1'') = Some ping
   \<and> snd (Proxy_Deliver ''node-1'' link_down (deliver_to ''node-1'')) = Returns None
   \<and> snd (Proxy_Deliver ''node-1'' link_down (deliver_to ''node-1''))
       \<noteq> Returns (Some ''unreachable'')"
proof -
  have a: "da_NID (deliver_to ''node-1'') = ''node-1''"
    "da_Message (deliver_to ''node-1'') = Some ping"
    by (simp_all add: deliver_to_def)
  show ?thesis
    using C10_Deliver_local_nil [where args = "deliver_to ''node-1''" and nid = "''node-1''"
        and link = link_down and m = ping and e = "''unreachable''"] a
    by simp
qed

end
